theory Spec2Isabelle
  imports Main "HOL-Library.Sublist"
begin

section \<open>Run-time values\<close>

text \<open>
  The client is TypeScript; at run time its requests, the parsed response bodies and the
  payload of an envelope are plain JavaScript values.  Numbers are modelled as integers:
  the client only tests a number for zero and prints it, and the text of a number is that
  of the program for the integers from \<open>-(2^53 - 1)\<close> to \<open>2^53 - 1\<close>.  An object is the
  list of its own properties.
\<close>

datatype jsval =
    JUndefined
  | JNull
  | JBool bool
  | JNum int
  | JStr string
  | JArr "jsval list"
  | JObj "(string \<times> jsval) list"

text \<open>A thrown value: an \<open>Error\<close> instance with its message, or any other value.\<close>

datatype exn = Error string | NonError

text \<open>\<open>error instanceof Error ? error.message : 'Unknown error'\<close>\<close>

fun message_of :: "exn \<Rightarrow> string" where
  "message_of (Error m) = m"
| "message_of NonError = ''Unknown error''"

text \<open>JavaScript truthiness, the test behind \<open>!x\<close>, \<open>x || y\<close> and \<open>x ? a : b\<close>.\<close>

fun truthy :: "jsval \<Rightarrow> bool" where
  "truthy JUndefined = False"
| "truthy JNull = False"
| "truthy (JBool b) = b"
| "truthy (JNum n) = (n \<noteq> 0)"
| "truthy (JStr s) = (s \<noteq> [])"
| "truthy (JArr xs) = True"
| "truthy (JObj kvs) = True"

text \<open>\<open>a || b\<close>\<close>

definition js_or :: "jsval \<Rightarrow> jsval \<Rightarrow> jsval" where
  "js_or a b = (if truthy a then a else b)"

text \<open>
  An optional string of a configuration record (\<open>username?: string\<close>) is \<open>None\<close> when
  absent; it is truthy when present and not empty.
\<close>

fun truthy_opt :: "string option \<Rightarrow> bool" where
  "truthy_opt None = False"
| "truthy_opt (Some s) = (s \<noteq> [])"

text \<open>
  Reading a property.  The client reads only \<open>data\<close>, \<open>name\<close>, \<open>type\<close> and
  \<open>access_token\<close>; none of them is a built-in property of a string, number, boolean or
  array, so on those the read gives \<open>undefined\<close>.  On \<open>null\<close> and \<open>undefined\<close> the plain
  read \<open>v.k\<close> throws a TypeError, the optional read \<open>v?.k\<close> gives \<open>undefined\<close>.  The
  message of a TypeError is the one Node gives.
\<close>

fun own_prop :: "(string \<times> jsval) list \<Rightarrow> string \<Rightarrow> jsval" where
  "own_prop kvs k = (case map_of kvs k of None \<Rightarrow> JUndefined | Some v \<Rightarrow> v)"

definition type_error :: "string \<Rightarrow> exn" where
  "type_error what = Error what"

definition quoted :: "string \<Rightarrow> string" where
  "quoted k = CHR 0x27 # k @ [CHR 0x27]"

fun get_prop :: "jsval \<Rightarrow> string \<Rightarrow> exn + jsval" where
  "get_prop JUndefined k = Inl (type_error (''Cannot read properties of undefined (reading '' @ quoted k @ '')''))"
| "get_prop JNull k = Inl (type_error (''Cannot read properties of null (reading '' @ quoted k @ '')''))"
| "get_prop (JObj kvs) k = Inr (own_prop kvs k)"
| "get_prop v k = Inr JUndefined"

fun opt_prop :: "jsval \<Rightarrow> string \<Rightarrow> jsval" where
  "opt_prop (JObj kvs) k = own_prop kvs k"
| "opt_prop v k = JUndefined"

subsection \<open>Conversion to strings\<close>

definition digit_char :: "nat \<Rightarrow> char" where
  "digit_char d = ''0123456789'' ! (d mod 10)"

function decimal :: "nat \<Rightarrow> string" where
  "decimal n =
     (if n < 10 then [digit_char n] else decimal (n div 10) @ [digit_char (n mod 10)])"
  by pat_completeness auto
termination
  by (relation "measure id") auto

declare decimal.simps [simp del]

text \<open>
  An integer from \<open>-(2^53 - 1)\<close> to \<open>2^53 - 1\<close> prints in decimal with all its digits, a
  negative one after a minus sign.
\<close>

definition number_string :: "int \<Rightarrow> string" where
  "number_string i = (if 0 \<le> i then decimal (nat i) else CHR ''-'' # decimal (nat (- i)))"

text \<open>
  \<open>String(v)\<close> and the conversion inside a template literal.  An object parsed from JSON
  gives \<open>[object Object]\<close>, unless it has a property \<open>toString\<close> of its own: that hides
  the method of \<open>Object.prototype\<close>, nothing converts the object, and a TypeError is thrown.
  An array joins the texts of its elements with commas (\<open>Array.prototype.join\<close>), \<open>null\<close> and
  \<open>undefined\<close> elements giving the empty string; the first element that throws ends it.
\<close>

fun js_String :: "jsval \<Rightarrow> exn + string"
  and join_elements :: "jsval list \<Rightarrow> exn + string" where
  "js_String JUndefined = Inr ''undefined''"
| "js_String JNull = Inr ''null''"
| "js_String (JBool b) = Inr (if b then ''true'' else ''false'')"
| "js_String (JNum n) = Inr (number_string n)"
| "js_String (JStr s) = Inr s"
| "js_String (JArr xs) = join_elements xs"
| "js_String (JObj kvs) =
     (if map_of kvs ''toString'' \<noteq> None
      then Inl (type_error ''Cannot convert object to primitive value'')
      else Inr ''[object Object]'')"
| "join_elements [] = Inr []"
| "join_elements (x # xs) =
     (case (if x = JUndefined \<or> x = JNull then Inr [] else js_String x) of
        Inl err \<Rightarrow> Inl err
      | Inr str \<Rightarrow>
          if xs = [] then Inr str
          else (case join_elements xs of
                  Inl err \<Rightarrow> Inl err
                | Inr rest \<Rightarrow> Inr (str @ '','' @ rest)))"

text \<open>
  \<open>String.prototype.toUpperCase\<close> on a string of ASCII characters, where it changes the
  letters \<open>a\<close> to \<open>z\<close> and nothing else.
\<close>

definition upper_char :: "char \<Rightarrow> char" where
  "upper_char c =
     (let n = (of_char c :: nat) in if 97 \<le> n \<and> n \<le> 122 then char_of (n - 32) else c)"

definition toUpperCase :: "string \<Rightarrow> string" where
  "toUpperCase s = map upper_char s"

section \<open>The filesystem module's path placeholder\<close>

text \<open>\<open>validatePath\<close> of \<open>tools/filesystem.ts\<close>: the promise resolves to its argument.\<close>

definition fs_validatePath :: "string \<Rightarrow> exn + string" where
  "fs_validatePath inputPath = Inr inputPath"

section \<open>The HTTP client\<close>

record HttpClientConfig =
  serverUrl :: string
  authUrl :: "string option"
  authToken :: jsval
  basePath :: string
  username :: "string option"
  password :: "string option"

text \<open>
  \<open>this.config\<close> is \<open>null\<close> until \<open>init\<close> has stored a configuration; the functions below
  take it as an \<open>option\<close>.  \<open>s.startsWith(p)\<close> is \<^term>\<open>prefix p s\<close>.  What the client
  writes to the console is left out.
\<close>

definition validatePath :: "HttpClientConfig option \<Rightarrow> string \<Rightarrow> exn + string" where
  "validatePath config requestPath =
     (case config of
        None \<Rightarrow> Inl (Error ''HTTP client not initialized'')
      | Some c \<Rightarrow>
          if \<not> prefix (basePath c) requestPath
          then Inr (basePath c @ (if prefix ''/'' requestPath then '''' else ''/'') @ requestPath)
          else Inr requestPath)"

subsection \<open>Transport\<close>

text \<open>
  What \<open>fetch\<close> gives back: the promise rejects with a thrown value, or resolves to a
  response.  \<open>body_text\<close> and \<open>body_json\<close> are the outcomes of \<open>response.text()\<close> and
  \<open>response.json()\<close>, which may reject as well.  \<open>response.ok\<close> is true for a status
  from 200 to 299.
\<close>

record Response =
  status :: nat
  statusText :: string
  body_text :: "exn + string"
  body_json :: "exn + jsval"

definition ok :: "Response \<Rightarrow> bool" where
  "ok response = (200 \<le> status response \<and> status response \<le> 299)"

datatype fetch_result = Rejected exn | Resolved Response

text \<open>
  A request as handed to \<open>fetch\<close>.  \<open>JsonBody v\<close> is \<open>JSON.stringify(v)\<close>, kept as the
  value; \<open>FormBody\<close> is a \<open>URLSearchParams\<close>.
\<close>

datatype request_body = JsonBody jsval | FormBody "(string \<times> string) list"

record http_request =
  url :: string
  http_method :: string
  headers :: "(string \<times> string) list"
  body :: request_body

text \<open>
  Modelled from the spec: the configuration provider (\<open>config-manager\<close>) is not part of
  the sources; it "supplies serverUrl, authUrl, authToken, basePath, username, password"
  and is "treated as an injected settings source".  \<open>getConfig\<close> is the settings object it
  resolves to, a key absent from the map being an absent setting.  The client reads the
  settings and never writes one, so they are the same at every call.

  The environment of the client is that provider and the network: \<open>fetch\<close> answers a
  request, knowing the requests issued before it.
\<close>

type_synonym ServerConfig = "string \<rightharpoonup> string"

record env =
  getConfig :: ServerConfig
  fetch :: "http_request list \<Rightarrow> http_request \<Rightarrow> fetch_result"

text \<open>
  The state of the program: \<open>config\<close> is the field \<open>this.config\<close> of the one exported
  \<open>httpClient\<close>; \<open>sent\<close> records the requests issued so far, oldest first.
\<close>

record state =
  config :: "HttpClientConfig option"
  sent :: "http_request list"

record ApiResponse =
  success :: bool
  data :: jsval
  error :: "string option"

definition failure :: "string \<Rightarrow> ApiResponse" where
  "failure msg = \<lparr>success = False, data = JUndefined, error = Some msg\<rparr>"

text \<open>
  The header \<open>Bearer ${authToken}\<close>.  \<open>authToken\<close> is declared a string; the text is that
  of the token whenever \<open>String\<close> converts it.
\<close>

definition bearer :: "jsval \<Rightarrow> string" where
  "bearer token = ''Bearer '' @ (case js_String token of Inr str \<Rightarrow> str | Inl err \<Rightarrow> [])"

definition api_request :: "HttpClientConfig \<Rightarrow> string \<Rightarrow> jsval \<Rightarrow> http_request" where
  "api_request c endpoint d =
     \<lparr>url = serverUrl c @ ''/api/commander/'' @ endpoint,
      http_method = ''POST'',
      headers = [(''Content-Type'', ''application/json''),
                 (''Authorization'', bearer (authToken c))],
      body = JsonBody d\<rparr>"

definition makeRequest :: "env \<Rightarrow> string \<Rightarrow> jsval \<Rightarrow> state \<Rightarrow> (exn + ApiResponse) \<times> state" where
  "makeRequest e endpoint d s =
     (case config s of
        None \<Rightarrow> (Inl (Error ''HTTP client not initialized''), s)
      | Some c \<Rightarrow>
          let rq = api_request c endpoint d;
              s' = s\<lparr>sent := sent s @ [rq]\<rparr>
          in (case fetch e (sent s) rq of
                Rejected err \<Rightarrow> (Inr (failure (''Network error: '' @ message_of err)), s')
              | Resolved response \<Rightarrow>
                  if \<not> ok response
                  then (Inr (failure (''HTTP '' @ decimal (status response) @ '': ''
                                       @ statusText response)), s')
                  else (case body_json response of
                          Inl err \<Rightarrow> (Inr (failure (''Network error: '' @ message_of err)), s')
                        | Inr result \<Rightarrow>
                            (Inr \<lparr>success = True, data = result, error = None\<rparr>, s'))))"

subsection \<open>Requests\<close>

text \<open>
  The request interfaces.  TypeScript's interfaces are structural and seven of the eight
  carry a \<open>path\<close>, so the records extend the one that has nothing else.  An optional
  field is an \<open>option\<close>.  The field \<open>length\<close> of \<open>FileReadRequest\<close> is \<open>length_field\<close>
  here.
\<close>

datatype write_mode = rewrite | append

record DirectoryListRequest =
  path :: string

type_synonym CreateDirectoryRequest = DirectoryListRequest
type_synonym GetFileInfoRequest = DirectoryListRequest

record FileReadRequest = DirectoryListRequest +
  offset :: "int option"
  length_field :: "int option"
  isUrl :: "bool option"

record FileWriteRequest = DirectoryListRequest +
  content :: string
  mode :: "write_mode option"

record FileSearchRequest = DirectoryListRequest +
  pattern :: string
  timeoutMs :: "int option"

record CodeSearchRequest = FileSearchRequest +
  contextLines :: "int option"
  filePattern :: "string option"
  ignoreCase :: "bool option"
  includeHidden :: "bool option"
  maxResults :: "int option"

record EditBlockRequest =
  file_path :: string
  old_string :: string
  new_string :: string
  expected_replacements :: "int option"

text \<open>
  The object a request record is at run time.  \<open>JSON.stringify\<close> leaves out a property
  whose value is \<open>undefined\<close>, so an absent optional field gives no property.
\<close>

definition opt_field :: "string \<Rightarrow> ('a \<Rightarrow> jsval) \<Rightarrow> 'a option \<Rightarrow> (string \<times> jsval) list" where
  "opt_field k f v = (case v of None \<Rightarrow> [] | Some x \<Rightarrow> [(k, f x)])"

fun json_of_mode :: "write_mode \<Rightarrow> jsval" where
  "json_of_mode rewrite = JStr ''rewrite''"
| "json_of_mode append = JStr ''append''"

definition json_of_DirectoryListRequest :: "DirectoryListRequest \<Rightarrow> jsval" where
  "json_of_DirectoryListRequest r = JObj [(''path'', JStr (path r))]"

definition json_of_FileReadRequest :: "FileReadRequest \<Rightarrow> jsval" where
  "json_of_FileReadRequest r =
     JObj ((''path'', JStr (path r)) # opt_field ''offset'' JNum (offset r)
           @ opt_field ''length'' JNum (length_field r) @ opt_field ''isUrl'' JBool (isUrl r))"

definition json_of_FileWriteRequest :: "FileWriteRequest \<Rightarrow> jsval" where
  "json_of_FileWriteRequest r =
     JObj ((''path'', JStr (path r)) # (''content'', JStr (content r))
           # opt_field ''mode'' json_of_mode (mode r))"

definition json_of_FileSearchRequest :: "FileSearchRequest \<Rightarrow> jsval" where
  "json_of_FileSearchRequest r =
     JObj ((''path'', JStr (path r)) # (''pattern'', JStr (pattern r))
           # opt_field ''timeoutMs'' JNum (timeoutMs r))"

definition json_of_CodeSearchRequest :: "CodeSearchRequest \<Rightarrow> jsval" where
  "json_of_CodeSearchRequest r =
     JObj ((''path'', JStr (path r)) # (''pattern'', JStr (pattern r))
           # opt_field ''contextLines'' JNum (contextLines r)
           @ opt_field ''filePattern'' JStr (filePattern r)
           @ opt_field ''ignoreCase'' JBool (ignoreCase r)
           @ opt_field ''includeHidden'' JBool (includeHidden r)
           @ opt_field ''maxResults'' JNum (maxResults r)
           @ opt_field ''timeoutMs'' JNum (timeoutMs r))"

definition json_of_EditBlockRequest :: "EditBlockRequest \<Rightarrow> jsval" where
  "json_of_EditBlockRequest r =
     JObj ((''file_path'', JStr (file_path r)) # (''old_string'', JStr (old_string r))
           # (''new_string'', JStr (new_string r))
           # opt_field ''expected_replacements'' JNum (expected_replacements r))"

subsection \<open>Operations\<close>

text \<open>
  Every operation validates the path first; \<open>validatePath\<close> throws when the client is not
  initialized and then nothing is sent.  \<open>{ ...request, path: validatedPath }\<close> is the
  record with its \<open>path\<close> replaced.
\<close>

definition readFile :: "env \<Rightarrow> FileReadRequest \<Rightarrow> state \<Rightarrow> (exn + ApiResponse) \<times> state" where
  "readFile e request s =
     (case validatePath (config s) (path request) of
        Inl err \<Rightarrow> (Inl err, s)
      | Inr validatedPath \<Rightarrow>
          (case makeRequest e ''read_file''
                  (json_of_FileReadRequest (request\<lparr>path := validatedPath\<rparr>)) s of
             (Inl err, s') \<Rightarrow> (Inl err, s')
           | (Inr response, s') \<Rightarrow>
               if \<not> success response then (Inr response, s')
               else (Inr \<lparr>success = True,
                          data = js_or (opt_prop (data response) ''data'') (data response),
                          error = None\<rparr>, s')))"

definition writeFile :: "env \<Rightarrow> FileWriteRequest \<Rightarrow> state \<Rightarrow> (exn + ApiResponse) \<times> state" where
  "writeFile e request s =
     (case validatePath (config s) (path request) of
        Inl err \<Rightarrow> (Inl err, s)
      | Inr validatedPath \<Rightarrow>
          makeRequest e ''write_file''
            (json_of_FileWriteRequest (request\<lparr>path := validatedPath\<rparr>)) s)"

text \<open>
  The callback of \<open>items.map\<close> in \<open>listDirectory\<close>; \<open>type_tag ty\<close> is
  \<open>ty?.toUpperCase() || 'FILE'\<close>, which throws when \<open>ty\<close> has no such method.
\<close>

definition type_tag :: "jsval \<Rightarrow> exn + string" where
  "type_tag ty =
     (case ty of
        JUndefined \<Rightarrow> Inr ''FILE''
      | JNull \<Rightarrow> Inr ''FILE''
      | JStr t \<Rightarrow> Inr (if toUpperCase t \<noteq> [] then toUpperCase t else ''FILE'')
      | _ \<Rightarrow> Inl (type_error ''item.type?.toUpperCase is not a function''))"

definition item_name :: "jsval \<Rightarrow> exn + string" where
  "item_name item =
     (case item of
        JStr str \<Rightarrow> Inr str
      | _ \<Rightarrow>
          (case get_prop item ''name'' of
             Inl err \<Rightarrow> Inl err
           | Inr nm \<Rightarrow>
               if truthy nm
               then (case get_prop item ''type'' of
                       Inl err \<Rightarrow> Inl err
                     | Inr ty \<Rightarrow>
                         (case type_tag ty of
                            Inl err \<Rightarrow> Inl err
                          | Inr tag \<Rightarrow>
                              (case js_String nm of
                                 Inl err \<Rightarrow> Inl err
                               | Inr str \<Rightarrow> Inr (''['' @ tag @ ''] '' @ str))))
               else js_String item))"

text \<open>\<open>Array.prototype.map\<close> with a callback that may throw: the first throw ends it.\<close>

fun map_items :: "jsval list \<Rightarrow> exn + string list" where
  "map_items [] = Inr []"
| "map_items (item # rest) =
     (case item_name item of
        Inl err \<Rightarrow> Inl err
      | Inr str \<Rightarrow> (case map_items rest of Inl err \<Rightarrow> Inl err | Inr strs \<Rightarrow> Inr (str # strs)))"

definition listDirectory :: "env \<Rightarrow> DirectoryListRequest \<Rightarrow> state \<Rightarrow> (exn + ApiResponse) \<times> state" where
  "listDirectory e request s =
     (case validatePath (config s) (path request) of
        Inl err \<Rightarrow> (Inl err, s)
      | Inr validatedPath \<Rightarrow>
          (case makeRequest e ''list_directory''
                  (json_of_DirectoryListRequest (request\<lparr>path := validatedPath\<rparr>)) s of
             (Inl err, s') \<Rightarrow> (Inl err, s')
           | (Inr response, s') \<Rightarrow>
               if \<not> success response then (Inr response, s')
               else (case js_or (js_or (opt_prop (data response) ''data'') (data response))
                                (JArr []) of
                       JArr items \<Rightarrow>
                         (case map_items items of
                            Inl err \<Rightarrow> (Inl err, s')
                          | Inr itemNames \<Rightarrow>
                              (Inr \<lparr>success = True, data = JArr (map JStr itemNames),
                                    error = None\<rparr>, s'))
                     | _ \<Rightarrow> (Inl (type_error ''items.map is not a function''), s'))))"

definition searchFiles :: "env \<Rightarrow> FileSearchRequest \<Rightarrow> state \<Rightarrow> (exn + ApiResponse) \<times> state" where
  "searchFiles e request s =
     (case validatePath (config s) (path request) of
        Inl err \<Rightarrow> (Inl err, s)
      | Inr validatedPath \<Rightarrow>
          makeRequest e ''search_files''
            (json_of_FileSearchRequest (request\<lparr>path := validatedPath\<rparr>)) s)"

definition searchCode :: "env \<Rightarrow> CodeSearchRequest \<Rightarrow> state \<Rightarrow> (exn + ApiResponse) \<times> state" where
  "searchCode e request s =
     (case validatePath (config s) (path request) of
        Inl err \<Rightarrow> (Inl err, s)
      | Inr validatedPath \<Rightarrow>
          makeRequest e ''search_code''
            (json_of_CodeSearchRequest (request\<lparr>path := validatedPath\<rparr>)) s)"

definition createDirectory :: "env \<Rightarrow> CreateDirectoryRequest \<Rightarrow> state \<Rightarrow> (exn + ApiResponse) \<times> state" where
  "createDirectory e request s =
     (case validatePath (config s) (path request) of
        Inl err \<Rightarrow> (Inl err, s)
      | Inr validatedPath \<Rightarrow>
          makeRequest e ''create_directory''
            (json_of_DirectoryListRequest (request\<lparr>path := validatedPath\<rparr>)) s)"

definition getFileInfo :: "env \<Rightarrow> GetFileInfoRequest \<Rightarrow> state \<Rightarrow> (exn + ApiResponse) \<times> state" where
  "getFileInfo e request s =
     (case validatePath (config s) (path request) of
        Inl err \<Rightarrow> (Inl err, s)
      | Inr validatedPath \<Rightarrow>
          makeRequest e ''get_file_info''
            (json_of_DirectoryListRequest (request\<lparr>path := validatedPath\<rparr>)) s)"

definition editBlock :: "env \<Rightarrow> EditBlockRequest \<Rightarrow> state \<Rightarrow> (exn + ApiResponse) \<times> state" where
  "editBlock e request s =
     (case validatePath (config s) (file_path request) of
        Inl err \<Rightarrow> (Inl err, s)
      | Inr validatedPath \<Rightarrow>
          makeRequest e ''edit_block''
            (json_of_EditBlockRequest (request\<lparr>file_path := validatedPath\<rparr>)) s)"

subsection \<open>Initialization and authentication\<close>

text \<open>\<open>x || d\<close> for an optional string \<open>x\<close>.\<close>

definition or_default :: "string option \<Rightarrow> string \<Rightarrow> string" where
  "or_default x d = (case x of None \<Rightarrow> d | Some v \<Rightarrow> if v \<noteq> [] then v else d)"

definition token_request :: "env \<Rightarrow> string \<Rightarrow> string \<Rightarrow> http_request" where
  "token_request e user pass =
     \<lparr>url = or_default (getConfig e ''authUrl'') ''http://localhost:8080''
              @ ''/realms/LIT/protocol/openid-connect/token'',
      http_method = ''POST'',
      headers = [(''Content-Type'', ''application/x-www-form-urlencoded'')],
      body = FormBody [(''grant_type'', ''password''), (''client_id'', ''lit-app''),
                       (''username'', user), (''password'', pass)]\<rparr>"

text \<open>
  The \<open>try\<close> block of \<open>authenticate\<close>, after the request has been issued: what it throws,
  or the token it stores.
\<close>

definition token_of :: "fetch_result \<Rightarrow> exn + jsval" where
  "token_of res =
     (case res of
        Rejected err \<Rightarrow> Inl err
      | Resolved response \<Rightarrow>
          if \<not> ok response
          then (case body_text response of
                  Inl err \<Rightarrow> Inl err
                | Inr errorText \<Rightarrow>
                    Inl (Error (''Keycloak authentication failed: ''
                                @ decimal (status response) @ '' '' @ statusText response
                                @ '' - '' @ errorText)))
          else (case body_json response of
                  Inl err \<Rightarrow> Inl err
                | Inr tokenData \<Rightarrow> get_prop tokenData ''access_token''))"

definition credentials_required :: exn where
  "credentials_required = Error ''Username and password required for authentication''"

definition authenticate :: "env \<Rightarrow> state \<Rightarrow> (exn + unit) \<times> state" where
  "authenticate e s =
     (case config s of
        None \<Rightarrow> (Inl credentials_required, s)
      | Some c \<Rightarrow>
          (case (username c, password c) of
             (Some user, Some pass) \<Rightarrow>
               if user = [] \<or> pass = [] then (Inl credentials_required, s)
               else
                 let rq = token_request e user pass;
                     s' = s\<lparr>sent := sent s @ [rq]\<rparr>
                 in (case token_of (fetch e (sent s) rq) of
                       Inl err \<Rightarrow> (Inl (Error (''Authentication failed: '' @ message_of err)), s')
                     | Inr token \<Rightarrow> (Inr (), s'\<lparr>config := Some (c\<lparr>authToken := token\<rparr>)\<rparr>))
           | _ \<Rightarrow> (Inl credentials_required, s)))"

definition configuration_incomplete :: exn where
  "configuration_incomplete =
     Error ''HTTP client configuration incomplete. Please set serverUrl and basePath in config.''"

definition init :: "env \<Rightarrow> state \<Rightarrow> (exn + unit) \<times> state" where
  "init e s =
     (let serverConfig = getConfig e in
      case (serverConfig ''serverUrl'', serverConfig ''basePath'') of
        (Some server, Some base) \<Rightarrow>
          if server = [] \<or> base = [] then (Inl configuration_incomplete, s)
          else
            let c = \<lparr>serverUrl = server,
                     authUrl = serverConfig ''authUrl'',
                     authToken = JStr (or_default (serverConfig ''authToken'') []),
                     basePath = base,
                     username = serverConfig ''username'',
                     password = serverConfig ''password''\<rparr>;
                s1 = s\<lparr>config := Some c\<rparr>
            in if \<not> truthy (authToken c) \<and> truthy_opt (username c) \<and> truthy_opt (password c)
               then authenticate e s1
               else (Inr (), s1)
      | _ \<Rightarrow> (Inl configuration_incomplete, s))"

section \<open>The operations of the filesystem module\<close>

text \<open>
  \<open>tools/filesystem.ts\<close>.  Its functions \<open>readFile\<close> and \<open>validatePath\<close> carry the
  prefix \<open>fs_\<close> here, the client having methods of the same names.  The result records
  come last: their fields \<open>path\<close>, \<open>content\<close> and \<open>error\<close> are also fields of the
  records above, which are written with the record's name from here on.
\<close>

record FileResult =
  content :: jsval
  mimeType :: string
  isImage :: bool

record MultiFileResult =
  path :: string
  content :: "jsval option"
  mimeType :: "string option"
  isImage :: "bool option"
  error :: "string option"

definition readFileFromUrl :: "string \<Rightarrow> int \<Rightarrow> state \<Rightarrow> (exn + FileResult) \<times> state" where
  "readFileFromUrl u timeout s =
     (Inl (Error ''URL reading not implemented in remote commander. Please use local paths only.''), s)"

definition readFileFromDisk :: "env \<Rightarrow> string \<Rightarrow> int \<Rightarrow> int \<Rightarrow> state \<Rightarrow> (exn + FileResult) \<times> state" where
  "readFileFromDisk e filePath off len s =
     (case init e s of
        (Inl err, s1) \<Rightarrow> (Inl err, s1)
      | (Inr u, s1) \<Rightarrow>
          (case readFile e \<lparr>DirectoryListRequest.path = filePath, offset = Some off,
                             length_field = Some len, isUrl = None\<rparr> s1 of
             (Inl err, s2) \<Rightarrow> (Inl err, s2)
           | (Inr response, s2) \<Rightarrow>
               if \<not> success response
               then (Inl (Error (or_default (ApiResponse.error response) ''Failed to read file'')), s2)
               else (Inr \<lparr>FileResult.content = js_or (data response) (JStr []),
                          FileResult.mimeType = ''text/plain'',
                          FileResult.isImage = False\<rparr>, s2)))"

definition fs_readFile :: "env \<Rightarrow> string \<Rightarrow> bool \<Rightarrow> int \<Rightarrow> int \<Rightarrow> state \<Rightarrow> (exn + FileResult) \<times> state" where
  "fs_readFile e p is_url off len s =
     (if is_url then readFileFromUrl p 30000 s else readFileFromDisk e p off len s)"

text \<open>
  The loop of \<open>readMultipleFiles\<close>: \<open>results\<close> is the array built so far.  The call
  \<open>readFile(filePath)\<close> takes the defaults \<open>isUrl = false\<close>, \<open>offset = 0\<close>,
  \<open>length = 1000\<close>.
\<close>

fun readMultipleFiles_loop ::
  "env \<Rightarrow> string list \<Rightarrow> MultiFileResult list \<Rightarrow> state \<Rightarrow> MultiFileResult list \<times> state" where
  "readMultipleFiles_loop e [] results s = (results, s)"
| "readMultipleFiles_loop e (filePath # rest) results s =
     (case fs_readFile e filePath False 0 1000 s of
        (Inr fileResult, s') \<Rightarrow>
          readMultipleFiles_loop e rest
            (results @ [\<lparr>path = filePath,
                          content = Some (FileResult.content fileResult),
                          mimeType = Some (FileResult.mimeType fileResult),
                          isImage = Some (FileResult.isImage fileResult),
                          error = None\<rparr>]) s'
      | (Inl err, s') \<Rightarrow>
          readMultipleFiles_loop e rest
            (results @ [\<lparr>path = filePath, content = None, mimeType = None, isImage = None,
                          error = Some (message_of err)\<rparr>]) s')"

definition readMultipleFiles :: "env \<Rightarrow> string list \<Rightarrow> state \<Rightarrow> (exn + MultiFileResult list) \<times> state" where
  "readMultipleFiles e paths s =
     (case readMultipleFiles_loop e paths [] s of (results, s') \<Rightarrow> (Inr results, s'))"

section \<open>Observations and examples\<close>

text \<open>
  The requests an operation has issued are those \<open>sent\<close> holds after it beyond those it
  held before; \<open>body_field k\<close> reads a property of the JSON body of a request.
\<close>

definition transmitted :: "state \<Rightarrow> state \<Rightarrow> http_request list" where
  "transmitted s s' = drop (length (sent s)) (sent s')"

definition body_field :: "string \<Rightarrow> http_request \<Rightarrow> jsval" where
  "body_field k rq = (case body rq of JsonBody b \<Rightarrow> opt_prop b k | FormBody kvs \<Rightarrow> JUndefined)"

definition is_token_request :: "http_request \<Rightarrow> bool" where
  "is_token_request rq = (case body rq of FormBody kvs \<Rightarrow> True | JsonBody b \<Rightarrow> False)"

text \<open>A client configured with \<open>basePath = "/base"\<close> and a token, and a fresh program.\<close>

definition example_config :: HttpClientConfig where
  "example_config =
     \<lparr>serverUrl = ''http://srv'', authUrl = None, authToken = JStr ''tok'',
      basePath = ''/base'', username = None, password = None\<rparr>"

definition initial_state :: state where
  "initial_state = \<lparr>config = None, sent = []\<rparr>"

definition example_state :: state where
  "example_state = \<lparr>config = Some example_config, sent = []\<rparr>"





text \<open>
  A server for the examples.  It answers the token request with a token, and an API
  request by the path it carries: \<open>/base/missing\<close> is not found, \<open>/base/down\<close> cannot be
  reached, \<open>/base/garbled\<close> comes back with a body that is not JSON, \<open>/base/dir\<close> and
  \<open>/base/odd\<close> are listings, \<open>/base/empty\<close> is an empty file, and any other path is a
  file holding \<open>hello\<close>.
\<close>

definition ok_response :: "jsval \<Rightarrow> Response" where
  "ok_response v = \<lparr>status = 200, statusText = ''OK'', body_text = Inr [], body_json = Inr v\<rparr>"

definition not_found :: Response where
  "not_found =
     \<lparr>status = 404, statusText = ''Not Found'', body_text = Inr ''no such file'',
      body_json = Inr (JObj [(''error'', JStr ''no such file'')])\<rparr>"

definition garbled :: Response where
  "garbled =
     \<lparr>status = 200, statusText = ''OK'', body_text = Inr ''<html>'',
      body_json = Inl (Error ''Unexpected token < in JSON at position 0'')\<rparr>"

definition example_listing :: "jsval list" where
  "example_listing =
     [JObj [(''name'', JStr ''a.txt''), (''type'', JStr ''file'')],
      JObj [(''name'', JStr ''sub''), (''type'', JStr ''dir'')],
      JStr ''raw'']"

definition example_fetch :: "http_request list \<Rightarrow> http_request \<Rightarrow> fetch_result" where
  "example_fetch history rq =
     (if is_token_request rq
      then Resolved (ok_response (JObj [(''access_token'', JStr ''tok'')]))
      else if body_field ''path'' rq = JStr ''/base/missing'' then Resolved not_found
      else if body_field ''path'' rq = JStr ''/base/down''
      then Rejected (Error ''connect ECONNREFUSED'')
      else if body_field ''path'' rq = JStr ''/base/garbled'' then Resolved garbled
      else if body_field ''path'' rq = JStr ''/base/dir''
      then Resolved (ok_response (JObj [(''data'', JArr example_listing)]))
      else if body_field ''path'' rq = JStr ''/base/odd''
      then Resolved (ok_response (JArr [JObj [(''type'', JStr ''dir'')]]))
      else if body_field ''path'' rq = JStr ''/base/empty''
      then Resolved (ok_response (JObj [(''success'', JBool True), (''data'', JStr [])]))
      else Resolved (ok_response (JObj [(''success'', JBool True), (''data'', JStr ''hello'')])))"

text \<open>Settings with a token, and settings with a user name and a password instead.\<close>

definition example_env :: env where
  "example_env =
     \<lparr>getConfig = [''serverUrl'' \<mapsto> ''http://srv'', ''basePath'' \<mapsto> ''/base'',
                   ''authToken'' \<mapsto> ''tok''],
      fetch = example_fetch\<rparr>"

definition password_env :: env where
  "password_env =
     \<lparr>getConfig = [''serverUrl'' \<mapsto> ''http://srv'', ''basePath'' \<mapsto> ''/base'',
                   ''username'' \<mapsto> ''alice'', ''password'' \<mapsto> ''secret''],
      fetch = example_fetch\<rparr>"

text \<open>Settings without \<open>basePath\<close>.\<close>

definition incomplete_env :: env where
  "incomplete_env =
     \<lparr>getConfig = [''serverUrl'' \<mapsto> ''http://srv'', ''authToken'' \<mapsto> ''tok''],
      fetch = example_fetch\<rparr>"

section \<open>Path normalization\<close>

lemma validatePath_has_basePath:
  "validatePath (Some c) p = Inr q \<Longrightarrow> prefix (basePath c) q"
  by (auto simp: validatePath_def split: if_splits)

lemma validatePath_total:
  "\<exists>q. validatePath (Some c) p = Inr q"
  by (simp add: validatePath_def)

lemma validatePath_fixed:
  "prefix (basePath c) p \<Longrightarrow> validatePath (Some c) p = Inr p"
  by (simp add: validatePath_def)

text \<open>
  Claim C5.  On an initialized client the path normalization returns a path that already
  starts with \<open>basePath\<close> unchanged; any other path gets \<open>basePath\<close> in front, with a slash
  between the two unless the path starts with one.  With \<open>basePath = "/base"\<close> the path
  \<open>/foo\<close> becomes \<open>/base/foo\<close> and \<open>/base/foo\<close> stays as it is.  Normalizing the result
  again changes nothing.
\<close>

theorem validatePath_normalization:
  "\<exists>q. validatePath (Some c) p = Inr q
      \<and> (prefix (basePath c) p \<longrightarrow> q = p)
      \<and> (\<not> prefix (basePath c) p \<and> prefix ''/'' p \<longrightarrow> q = basePath c @ p)
      \<and> (\<not> prefix (basePath c) p \<and> \<not> prefix ''/'' p \<longrightarrow> q = basePath c @ ''/'' @ p)
      \<and> validatePath (Some c) q = Inr q
      \<and> (basePath c = ''/base'' \<longrightarrow>
            validatePath (Some c) ''/foo'' = Inr ''/base/foo''
          \<and> validatePath (Some c) ''/base/foo'' = Inr ''/base/foo'')"
proof -
  obtain q where q: "validatePath (Some c) p = Inr q"
    using validatePath_total by blast
  have again: "validatePath (Some c) q = Inr q"
    using validatePath_fixed [OF validatePath_has_basePath [OF q]] .
  have shape: "(prefix (basePath c) p \<longrightarrow> q = p)
      \<and> (\<not> prefix (basePath c) p \<and> prefix ''/'' p \<longrightarrow> q = basePath c @ p)
      \<and> (\<not> prefix (basePath c) p \<and> \<not> prefix ''/'' p \<longrightarrow> q = basePath c @ ''/'' @ p)"
    using q by (auto simp: validatePath_def split: if_splits)
  have ex: "basePath c = ''/base'' \<longrightarrow>
            validatePath (Some c) ''/foo'' = Inr ''/base/foo''
          \<and> validatePath (Some c) ''/base/foo'' = Inr ''/base/foo''"
    by (simp add: validatePath_def)
  from q again shape ex show ?thesis by blast
qed

theorem validatePath_normalization_witness:
  "validatePath (Some example_config) ''docs/a.txt'' = Inr ''/base/docs/a.txt''
   \<and> validatePath (Some example_config) ''/base/docs/a.txt'' = Inr ''/base/docs/a.txt''
   \<and> validatePath (Some example_config) ''/foo'' = Inr ''/base/foo''
   \<and> validatePath (Some example_config) ''/base/foo'' = Inr ''/base/foo''"
  using validatePath_normalization [of example_config "''docs/a.txt''"]
  by (auto simp: example_config_def)

text \<open>
  Claim C10.  The function \<open>validatePath\<close> exported by the filesystem module returns its
  argument as it is.  It puts no \<open>basePath\<close> in front: on a path that does not start with
  \<open>basePath\<close> its result differs from that of the client's normalization.
\<close>

theorem fs_validatePath_identity:
  "fs_validatePath p = Inr p
   \<and> (\<not> prefix (basePath c) p \<longrightarrow> fs_validatePath p \<noteq> validatePath (Some c) p)"
proof -
  have "\<not> prefix (basePath c) p \<Longrightarrow> basePath c \<noteq> []"
    by auto
  then show ?thesis
    by (auto simp: fs_validatePath_def validatePath_def)
qed

theorem fs_validatePath_identity_witness:
  "fs_validatePath ''/foo'' = Inr ''/foo''
   \<and> validatePath (Some example_config) ''/foo'' = Inr ''/base/foo''"
  using fs_validatePath_identity [of "''/foo''" example_config]
  by (simp add: example_config_def validatePath_def)

section \<open>Request execution\<close>

lemmas example_defs =
  example_env_def example_fetch_def example_state_def example_config_def
  is_token_request_def body_field_def api_request_def not_found_def garbled_def ok_response_def
  ok_def failure_def

lemma makeRequest_sent:
  "config s = Some c \<Longrightarrow>
   snd (makeRequest e endpoint d s) = s\<lparr>sent := sent s @ [api_request c endpoint d]\<rparr>"
  by (simp add: makeRequest_def Let_def split: fetch_result.splits sum.splits)

lemma makeRequest_result:
  "config s = Some c \<Longrightarrow>
   fst (makeRequest e endpoint d s) =
     Inr (case fetch e (sent s) (api_request c endpoint d) of
            Rejected err \<Rightarrow> failure (''Network error: '' @ message_of err)
          | Resolved response \<Rightarrow>
              if \<not> ok response
              then failure (''HTTP '' @ decimal (status response) @ '': '' @ statusText response)
              else (case body_json response of
                      Inl err \<Rightarrow> failure (''Network error: '' @ message_of err)
                    | Inr result \<Rightarrow> \<lparr>success = True, data = result, ApiResponse.error = None\<rparr>))"
  by (simp add: makeRequest_def Let_def split: fetch_result.splits sum.splits)

lemma makeRequest_uninitialized:
  "config s = None \<Longrightarrow>
   makeRequest e endpoint d s = (Inl (Error ''HTTP client not initialized''), s)"
  by (simp add: makeRequest_def)

lemma decimal_404: "decimal 404 = ''404''"
  by code_simp

text \<open>
  Claim C2.  On an initialized client \<open>makeRequest\<close> returns one envelope for every
  outcome of the transport.  When \<open>fetch\<close> rejects, the envelope is a failure whose error is
  \<open>Network error:\<close> and the message.  A response with a status outside 200..299 gives a
  failure whose error is \<open>HTTP\<close>, the status, a colon and the status text; for 404 with
  \<open>Not Found\<close> this is \<open>HTTP 404: Not Found\<close>.  A response with a status in 200..299
  whose body parses gives a success that carries the parsed body; when the body does not
  parse, the rejection of \<open>response.json()\<close> is reported like one of \<open>fetch\<close>.  The
  envelope is a success without error, or a failure whose error starts with exactly one of
  \<open>HTTP\<close> and \<open>Network error:\<close>.
\<close>

theorem makeRequest_classification:
  "config s = Some c \<longrightarrow>
     (\<forall>err. fetch e (sent s) (api_request c endpoint d) = Rejected err \<longrightarrow>
        fst (makeRequest e endpoint d s)
          = Inr \<lparr>success = False, data = JUndefined,
                 ApiResponse.error = Some (''Network error: '' @ message_of err)\<rparr>)
   \<and> (\<forall>rsp. fetch e (sent s) (api_request c endpoint d) = Resolved rsp
            \<and> \<not> (200 \<le> status rsp \<and> status rsp \<le> 299) \<longrightarrow>
        fst (makeRequest e endpoint d s)
          = Inr \<lparr>success = False, data = JUndefined,
                 ApiResponse.error =
                   Some (''HTTP '' @ decimal (status rsp) @ '': '' @ statusText rsp)\<rparr>)
   \<and> (\<forall>rsp. fetch e (sent s) (api_request c endpoint d) = Resolved rsp
            \<and> status rsp = 404 \<and> statusText rsp = ''Not Found'' \<longrightarrow>
        fst (makeRequest e endpoint d s)
          = Inr \<lparr>success = False, data = JUndefined,
                 ApiResponse.error = Some ''HTTP 404: Not Found''\<rparr>)
   \<and> (\<forall>rsp v. fetch e (sent s) (api_request c endpoint d) = Resolved rsp
            \<and> 200 \<le> status rsp \<and> status rsp \<le> 299 \<and> body_json rsp = Inr v \<longrightarrow>
        fst (makeRequest e endpoint d s)
          = Inr \<lparr>success = True, data = v, ApiResponse.error = None\<rparr>)
   \<and> (\<forall>rsp err. fetch e (sent s) (api_request c endpoint d) = Resolved rsp
            \<and> 200 \<le> status rsp \<and> status rsp \<le> 299 \<and> body_json rsp = Inl err \<longrightarrow>
        fst (makeRequest e endpoint d s)
          = Inr \<lparr>success = False, data = JUndefined,
                 ApiResponse.error = Some (''Network error: '' @ message_of err)\<rparr>)
   \<and> (\<exists>r. fst (makeRequest e endpoint d s) = Inr r
          \<and> (if success r then ApiResponse.error r = None
              else \<exists>m. ApiResponse.error r = Some m
                     \<and> (prefix ''HTTP '' m \<noteq> prefix ''Network error: '' m)))"
  by (auto simp: makeRequest_result failure_def ok_def decimal_404
           split: fetch_result.splits sum.splits)

theorem makeRequest_classification_witness:
  "fst (makeRequest example_env ''read_file'' (JObj [(''path'', JStr ''/base/missing'')])
          example_state)
     = Inr \<lparr>success = False, data = JUndefined,
            ApiResponse.error = Some ''HTTP 404: Not Found''\<rparr>
   \<and> fst (makeRequest example_env ''read_file'' (JObj [(''path'', JStr ''/base/down'')])
          example_state)
     = Inr \<lparr>success = False, data = JUndefined,
            ApiResponse.error = Some ''Network error: connect ECONNREFUSED''\<rparr>
   \<and> fst (makeRequest example_env ''read_file'' (JObj [(''path'', JStr ''/base/a'')])
          example_state)
     = Inr \<lparr>success = True,
            data = JObj [(''success'', JBool True), (''data'', JStr ''hello'')],
            ApiResponse.error = None\<rparr>"
  using
    makeRequest_classification [where s = example_state and c = example_config
      and e = example_env and endpoint = "''read_file''"
      and d = "JObj [(''path'', JStr ''/base/missing'')]"]
    makeRequest_classification [where s = example_state and c = example_config
      and e = example_env and endpoint = "''read_file''"
      and d = "JObj [(''path'', JStr ''/base/down'')]"]
    makeRequest_classification [where s = example_state and c = example_config
      and e = example_env and endpoint = "''read_file''"
      and d = "JObj [(''path'', JStr ''/base/a'')]"]
  by (simp add: makeRequest_def example_defs decimal_404)

text \<open>
  Claim C3.  On an initialized client \<open>makeRequest\<close> does not throw, whatever the endpoint,
  the request body and the outcome of the transport: it returns an envelope.  The envelope
  is a success exactly when the response has a status in 200..299 and its body parses; every
  other outcome, a 2xx response whose body does not parse among them, is a failure envelope
  with an error and no data.  Without a configuration \<open>makeRequest\<close> throws and sends
  nothing.
\<close>

theorem makeRequest_never_throws:
  "(config s = Some c \<longrightarrow>
      (\<exists>r. fst (makeRequest e endpoint d s) = Inr r
          \<and> (success r \<longrightarrow> ApiResponse.error r = None)
          \<and> (\<not> success r \<longrightarrow> data r = JUndefined \<and> (\<exists>m. ApiResponse.error r = Some m))
          \<and> (success r \<longleftrightarrow>
               (\<exists>rsp v. fetch e (sent s) (api_request c endpoint d) = Resolved rsp
                       \<and> ok rsp \<and> body_json rsp = Inr v))
          \<and> (\<forall>rsp err. fetch e (sent s) (api_request c endpoint d) = Resolved rsp
                       \<and> ok rsp \<and> body_json rsp = Inl err \<longrightarrow>
                \<not> success r
                \<and> ApiResponse.error r = Some (''Network error: '' @ message_of err))))
   \<and> (config s = None \<longrightarrow>
        makeRequest e endpoint d s = (Inl (Error ''HTTP client not initialized''), s))"
  by (auto simp: makeRequest_result makeRequest_uninitialized failure_def
           split: fetch_result.splits sum.splits)

theorem makeRequest_never_throws_witness:
  "fst (makeRequest example_env ''read_file'' (JObj [(''path'', JStr ''/base/garbled'')])
          example_state)
     = Inr \<lparr>success = False, data = JUndefined,
            ApiResponse.error =
              Some ''Network error: Unexpected token < in JSON at position 0''\<rparr>
   \<and> makeRequest example_env ''read_file'' (JObj [(''path'', JStr ''/base/garbled'')])
          initial_state
     = (Inl (Error ''HTTP client not initialized''), initial_state)"
  using
    makeRequest_never_throws [where s = example_state and c = example_config
      and e = example_env and endpoint = "''read_file''"
      and d = "JObj [(''path'', JStr ''/base/garbled'')]"]
    makeRequest_never_throws [where s = initial_state and c = example_config
      and e = example_env and endpoint = "''read_file''"
      and d = "JObj [(''path'', JStr ''/base/garbled'')]"]
  by (simp add: makeRequest_def example_defs initial_state_def)

section \<open>Operations of the client\<close>

lemma makeRequest_eq:
  "config s = Some c \<Longrightarrow>
   makeRequest e endpoint d s =
     (Inr (case fetch e (sent s) (api_request c endpoint d) of
            Rejected err \<Rightarrow> failure (''Network error: '' @ message_of err)
          | Resolved response \<Rightarrow>
              if \<not> ok response
              then failure (''HTTP '' @ decimal (status response) @ '': '' @ statusText response)
              else (case body_json response of
                      Inl err \<Rightarrow> failure (''Network error: '' @ message_of err)
                    | Inr result \<Rightarrow> \<lparr>success = True, data = result, ApiResponse.error = None\<rparr>)),
      s\<lparr>sent := sent s @ [api_request c endpoint d]\<rparr>)"
  using makeRequest_result [of s c e endpoint d] makeRequest_sent [of s c e endpoint d]
  by (simp add: prod_eq_iff)

lemma transmitted_append [simp]:
  "transmitted s (s\<lparr>sent := sent s @ rqs\<rparr>) = rqs"
  by (simp add: transmitted_def)

lemma body_field_api_request [simp]:
  "body_field k (api_request c endpoint d) = opt_prop d k"
  by (simp add: body_field_def api_request_def)

lemma readFile_state:
  "config s = Some c \<Longrightarrow> validatePath (Some c) (DirectoryListRequest.path r) = Inr q \<Longrightarrow>
   snd (readFile e r s) = s\<lparr>sent := sent s @ [api_request c ''read_file''
            (json_of_FileReadRequest (r\<lparr>DirectoryListRequest.path := q\<rparr>))]\<rparr>"
  by (simp add: readFile_def makeRequest_eq)


lemma listDirectory_state:
  "config s = Some c \<Longrightarrow> validatePath (Some c) (DirectoryListRequest.path r) = Inr q \<Longrightarrow>
   snd (listDirectory e r s) = s\<lparr>sent := sent s @ [api_request c ''list_directory''
            (json_of_DirectoryListRequest (r\<lparr>DirectoryListRequest.path := q\<rparr>))]\<rparr>"
  by (simp add: listDirectory_def makeRequest_eq split: jsval.splits sum.splits)

lemma path_field_FileReadRequest [simp]:
  "opt_prop (json_of_FileReadRequest r) ''path'' = JStr (DirectoryListRequest.path r)"
  by (simp add: json_of_FileReadRequest_def)

lemma path_field_DirectoryListRequest [simp]:
  "opt_prop (json_of_DirectoryListRequest r) ''path'' = JStr (DirectoryListRequest.path r)"
  by (simp add: json_of_DirectoryListRequest_def)

lemma path_field_FileWriteRequest [simp]:
  "opt_prop (json_of_FileWriteRequest r) ''path'' = JStr (DirectoryListRequest.path r)"
  by (simp add: json_of_FileWriteRequest_def)

lemma path_field_FileSearchRequest [simp]:
  "opt_prop (json_of_FileSearchRequest r) ''path'' = JStr (DirectoryListRequest.path r)"
  by (simp add: json_of_FileSearchRequest_def)

lemma path_field_CodeSearchRequest [simp]:
  "opt_prop (json_of_CodeSearchRequest r) ''path'' = JStr (DirectoryListRequest.path r)"
  by (simp add: json_of_CodeSearchRequest_def)

lemma path_field_EditBlockRequest [simp]:
  "opt_prop (json_of_EditBlockRequest r) ''file_path'' = JStr (file_path r)"
  by (simp add: json_of_EditBlockRequest_def)

lemma readFile_transmits:
  assumes "config s = Some c" "validatePath (Some c) (DirectoryListRequest.path r) = Inr q"
  shows "map (body_field ''path'') (transmitted s (snd (readFile e r s))) = [JStr q]"
  by (simp add: readFile_state [OF assms])

lemma listDirectory_transmits:
  assumes "config s = Some c" "validatePath (Some c) (DirectoryListRequest.path r) = Inr q"
  shows "map (body_field ''path'') (transmitted s (snd (listDirectory e r s))) = [JStr q]"
  by (simp add: listDirectory_state [OF assms])

lemma writeFile_transmits:
  assumes "config s = Some c" "validatePath (Some c) (DirectoryListRequest.path r) = Inr q"
  shows "map (body_field ''path'') (transmitted s (snd (writeFile e r s))) = [JStr q]"
  using assms by (simp add: writeFile_def makeRequest_eq)

lemma searchFiles_transmits:
  assumes "config s = Some c" "validatePath (Some c) (DirectoryListRequest.path r) = Inr q"
  shows "map (body_field ''path'') (transmitted s (snd (searchFiles e r s))) = [JStr q]"
  using assms by (simp add: searchFiles_def makeRequest_eq)

lemma searchCode_transmits:
  assumes "config s = Some c" "validatePath (Some c) (DirectoryListRequest.path r) = Inr q"
  shows "map (body_field ''path'') (transmitted s (snd (searchCode e r s))) = [JStr q]"
  using assms by (simp add: searchCode_def makeRequest_eq)

lemma createDirectory_transmits:
  assumes "config s = Some c" "validatePath (Some c) (DirectoryListRequest.path r) = Inr q"
  shows "map (body_field ''path'') (transmitted s (snd (createDirectory e r s))) = [JStr q]"
  using assms by (simp add: createDirectory_def makeRequest_eq)

lemma getFileInfo_transmits:
  assumes "config s = Some c" "validatePath (Some c) (DirectoryListRequest.path r) = Inr q"
  shows "map (body_field ''path'') (transmitted s (snd (getFileInfo e r s))) = [JStr q]"
  using assms by (simp add: getFileInfo_def makeRequest_eq)

lemma editBlock_transmits:
  assumes "config s = Some c" "validatePath (Some c) (file_path r) = Inr q"
  shows "map (body_field ''file_path'') (transmitted s (snd (editBlock e r s))) = [JStr q]"
  using assms by (simp add: editBlock_def makeRequest_eq)

lemma transmitted_same [simp]: "transmitted s s = []"
  by (simp add: transmitted_def)

lemma validatePath_uninitialized [simp]:
  "validatePath None p = Inl (Error ''HTTP client not initialized'')"
  by (simp add: validatePath_def)

text \<open>
  Claim C1.  On an initialized client each of the eight operations \<open>readFile\<close>,
  \<open>writeFile\<close>, \<open>listDirectory\<close>, \<open>searchFiles\<close>, \<open>searchCode\<close>, \<open>createDirectory\<close>,
  \<open>getFileInfo\<close> and \<open>editBlock\<close> issues one request, and the path field of its body
  (\<open>file_path\<close> for \<open>editBlock\<close>, \<open>path\<close> for the others) starts with \<open>basePath\<close>: it is the
  input path when that starts with \<open>basePath\<close>, and otherwise \<open>basePath\<close>, a slash unless
  the input starts with one, and the input path.  On a client that is not initialized the
  operations send nothing.
\<close>

theorem outbound_path_has_basePath:
  "(config s = Some c \<longrightarrow>
     (\<exists>q. validatePath (Some c) p = Inr q
        \<and> prefix (basePath c) q
        \<and> (prefix (basePath c) p \<longrightarrow> q = p)
        \<and> (\<not> prefix (basePath c) p \<longrightarrow>
              q = basePath c @ (if prefix ''/'' p then [] else ''/'') @ p)
        \<and> (DirectoryListRequest.path r_read = p \<longrightarrow>
              map (body_field ''path'') (transmitted s (snd (readFile e r_read s))) = [JStr q])
        \<and> (DirectoryListRequest.path r_write = p \<longrightarrow>
              map (body_field ''path'') (transmitted s (snd (writeFile e r_write s))) = [JStr q])
        \<and> (DirectoryListRequest.path r_list = p \<longrightarrow>
              map (body_field ''path'') (transmitted s (snd (listDirectory e r_list s))) = [JStr q])
        \<and> (DirectoryListRequest.path r_files = p \<longrightarrow>
              map (body_field ''path'') (transmitted s (snd (searchFiles e r_files s))) = [JStr q])
        \<and> (DirectoryListRequest.path r_code = p \<longrightarrow>
              map (body_field ''path'') (transmitted s (snd (searchCode e r_code s))) = [JStr q])
        \<and> (DirectoryListRequest.path r_create = p \<longrightarrow>
              map (body_field ''path'') (transmitted s (snd (createDirectory e r_create s))) = [JStr q])
        \<and> (DirectoryListRequest.path r_info = p \<longrightarrow>
              map (body_field ''path'') (transmitted s (snd (getFileInfo e r_info s))) = [JStr q])
        \<and> (file_path r_edit = p \<longrightarrow>
              map (body_field ''file_path'') (transmitted s (snd (editBlock e r_edit s))) = [JStr q])))
   \<and> (config s = None \<longrightarrow>
         transmitted s (snd (readFile e r_read s)) = []
       \<and> transmitted s (snd (writeFile e r_write s)) = []
       \<and> transmitted s (snd (listDirectory e r_list s)) = []
       \<and> transmitted s (snd (searchFiles e r_files s)) = []
       \<and> transmitted s (snd (searchCode e r_code s)) = []
       \<and> transmitted s (snd (createDirectory e r_create s)) = []
       \<and> transmitted s (snd (getFileInfo e r_info s)) = []
       \<and> transmitted s (snd (editBlock e r_edit s)) = [])"
proof -
  have sent_nothing: "config s = None \<longrightarrow>
         transmitted s (snd (readFile e r_read s)) = []
       \<and> transmitted s (snd (writeFile e r_write s)) = []
       \<and> transmitted s (snd (listDirectory e r_list s)) = []
       \<and> transmitted s (snd (searchFiles e r_files s)) = []
       \<and> transmitted s (snd (searchCode e r_code s)) = []
       \<and> transmitted s (snd (createDirectory e r_create s)) = []
       \<and> transmitted s (snd (getFileInfo e r_info s)) = []
       \<and> transmitted s (snd (editBlock e r_edit s)) = []"
    by (simp add: readFile_def writeFile_def listDirectory_def searchFiles_def searchCode_def
          createDirectory_def getFileInfo_def editBlock_def)
  have sent_path: "\<exists>q. validatePath (Some c) p = Inr q
        \<and> prefix (basePath c) q
        \<and> (prefix (basePath c) p \<longrightarrow> q = p)
        \<and> (\<not> prefix (basePath c) p \<longrightarrow>
              q = basePath c @ (if prefix ''/'' p then [] else ''/'') @ p)
        \<and> (DirectoryListRequest.path r_read = p \<longrightarrow>
              map (body_field ''path'') (transmitted s (snd (readFile e r_read s))) = [JStr q])
        \<and> (DirectoryListRequest.path r_write = p \<longrightarrow>
              map (body_field ''path'') (transmitted s (snd (writeFile e r_write s))) = [JStr q])
        \<and> (DirectoryListRequest.path r_list = p \<longrightarrow>
              map (body_field ''path'') (transmitted s (snd (listDirectory e r_list s))) = [JStr q])
        \<and> (DirectoryListRequest.path r_files = p \<longrightarrow>
              map (body_field ''path'') (transmitted s (snd (searchFiles e r_files s))) = [JStr q])
        \<and> (DirectoryListRequest.path r_code = p \<longrightarrow>
              map (body_field ''path'') (transmitted s (snd (searchCode e r_code s))) = [JStr q])
        \<and> (DirectoryListRequest.path r_create = p \<longrightarrow>
              map (body_field ''path'') (transmitted s (snd (createDirectory e r_create s))) = [JStr q])
        \<and> (DirectoryListRequest.path r_info = p \<longrightarrow>
              map (body_field ''path'') (transmitted s (snd (getFileInfo e r_info s))) = [JStr q])
        \<and> (file_path r_edit = p \<longrightarrow>
              map (body_field ''file_path'') (transmitted s (snd (editBlock e r_edit s))) = [JStr q])"
    if init: "config s = Some c"
  proof -
    obtain q where q: "validatePath (Some c) p = Inr q"
      using validatePath_total by blast
    have pre: "prefix (basePath c) q"
      using validatePath_has_basePath [OF q] .
    have same: "prefix (basePath c) p \<longrightarrow> q = p"
      using q by (auto simp: validatePath_def)
    have other: "\<not> prefix (basePath c) p \<longrightarrow>
            q = basePath c @ (if prefix ''/'' p then [] else ''/'') @ p"
      using q by (auto simp: validatePath_def)
    have t1: "DirectoryListRequest.path r_read = p \<longrightarrow>
              map (body_field ''path'') (transmitted s (snd (readFile e r_read s))) = [JStr q]"
      using readFile_transmits [OF init, of r_read q e] q by blast
    have t2: "DirectoryListRequest.path r_write = p \<longrightarrow>
              map (body_field ''path'') (transmitted s (snd (writeFile e r_write s))) = [JStr q]"
      using writeFile_transmits [OF init, of r_write q e] q by blast
    have t3: "DirectoryListRequest.path r_list = p \<longrightarrow>
              map (body_field ''path'') (transmitted s (snd (listDirectory e r_list s))) = [JStr q]"
      using listDirectory_transmits [OF init, of r_list q e] q by blast
    have t4: "DirectoryListRequest.path r_files = p \<longrightarrow>
              map (body_field ''path'') (transmitted s (snd (searchFiles e r_files s))) = [JStr q]"
      using searchFiles_transmits [OF init, of r_files q e] q by blast
    have t5: "DirectoryListRequest.path r_code = p \<longrightarrow>
              map (body_field ''path'') (transmitted s (snd (searchCode e r_code s))) = [JStr q]"
      using searchCode_transmits [OF init, of r_code q e] q by blast
    have t6: "DirectoryListRequest.path r_create = p \<longrightarrow>
              map (body_field ''path'') (transmitted s (snd (createDirectory e r_create s))) = [JStr q]"
      using createDirectory_transmits [OF init, of r_create q e] q by blast
    have t7: "DirectoryListRequest.path r_info = p \<longrightarrow>
              map (body_field ''path'') (transmitted s (snd (getFileInfo e r_info s))) = [JStr q]"
      using getFileInfo_transmits [OF init, of r_info q e] q by blast
    have t8: "file_path r_edit = p \<longrightarrow>
              map (body_field ''file_path'') (transmitted s (snd (editBlock e r_edit s))) = [JStr q]"
      using editBlock_transmits [OF init, of r_edit q e] q by blast
    show ?thesis
      by (intro exI [of _ q] conjI) (fact q pre same other t1 t2 t3 t4 t5 t6 t7 t8)+
  qed
  show ?thesis
    by (rule conjI [OF impI [OF sent_path] sent_nothing])
qed



lemma toUpperCase_empty [simp]: "toUpperCase t = [] \<longleftrightarrow> t = []"
  by (simp add: toUpperCase_def)













theorem outbound_path_has_basePath_witness:
  "map (body_field ''path'')
     (transmitted example_state
        (snd (readFile example_env
                \<lparr>DirectoryListRequest.path = ''/foo'', offset = None, length_field = None,
                 isUrl = None\<rparr> example_state)))
     = [JStr ''/base/foo'']
   \<and> map (body_field ''file_path'')
     (transmitted example_state
        (snd (editBlock example_env
                \<lparr>file_path = ''/base/notes.txt'', old_string = ''a'', new_string = ''b'',
                 expected_replacements = None\<rparr> example_state)))
     = [JStr ''/base/notes.txt'']"
  using
    outbound_path_has_basePath [where s = example_state and c = example_config
      and e = example_env and p = "''/foo''"
      and r_read = "\<lparr>DirectoryListRequest.path = ''/foo'', offset = None,
                     length_field = None, isUrl = None\<rparr>"]
    outbound_path_has_basePath [where s = example_state and c = example_config
      and e = example_env and p = "''/base/notes.txt''"
      and r_edit = "\<lparr>file_path = ''/base/notes.txt'', old_string = ''a'', new_string = ''b'',
                     expected_replacements = None\<rparr>"]
  by (simp add: example_state_def example_config_def validatePath_def)








section \<open>Initialization\<close>

lemma init_incomplete:
  "getConfig e ''serverUrl'' = None \<or> getConfig e ''serverUrl'' = Some []
   \<or> getConfig e ''basePath'' = None \<or> getConfig e ''basePath'' = Some [] \<Longrightarrow>
   init e s = (Inl configuration_incomplete, s)"
  by (auto simp: init_def Let_def split: option.splits)

text \<open>The configuration \<open>init\<close> stores when both settings are there.\<close>

lemma init_without_authentication:
  assumes "getConfig e ''serverUrl'' = Some u" "u \<noteq> []"
    and "getConfig e ''basePath'' = Some b" "b \<noteq> []"
    and "truthy_opt (getConfig e ''authToken'') \<or> \<not> truthy_opt (getConfig e ''username'')
         \<or> \<not> truthy_opt (getConfig e ''password'')"
  shows "init e s =
     (Inr (), s\<lparr>config := Some \<lparr>serverUrl = u, authUrl = getConfig e ''authUrl'',
        authToken = JStr (or_default (getConfig e ''authToken'') []), basePath = b,
        username = getConfig e ''username'', password = getConfig e ''password''\<rparr>\<rparr>)"
  using assms
  by (cases "getConfig e ''authToken''") (auto simp: init_def Let_def or_default_def)

lemma init_with_authentication:
  assumes "getConfig e ''serverUrl'' = Some u" "u \<noteq> []"
    and "getConfig e ''basePath'' = Some b" "b \<noteq> []"
    and "\<not> truthy_opt (getConfig e ''authToken'')"
    and "getConfig e ''username'' = Some user" "user \<noteq> []"
    and "getConfig e ''password'' = Some pass" "pass \<noteq> []"
  shows "init e s =
     (case token_of (fetch e (sent s) (token_request e user pass)) of
        Inl err \<Rightarrow>
          (Inl (Error (''Authentication failed: '' @ message_of err)),
           \<lparr>config = Some \<lparr>serverUrl = u, authUrl = getConfig e ''authUrl'',
              authToken = JStr [], basePath = b,
              username = Some user, password = Some pass\<rparr>,
            sent = sent s @ [token_request e user pass]\<rparr>)
      | Inr token \<Rightarrow>
          (Inr (),
           \<lparr>config = Some \<lparr>serverUrl = u, authUrl = getConfig e ''authUrl'',
              authToken = token, basePath = b,
              username = Some user, password = Some pass\<rparr>,
            sent = sent s @ [token_request e user pass]\<rparr>))"
  using assms
  by (cases "getConfig e ''authToken''")
     (auto simp: init_def authenticate_def or_default_def Let_def split: sum.splits)


lemma truthy_opt_iff: "truthy_opt x \<longleftrightarrow> (\<exists>v. x = Some v \<and> v \<noteq> [])"
  by (cases x) auto

lemma init_configures:
  assumes "getConfig e ''serverUrl'' = Some u" "u \<noteq> []"
    and "getConfig e ''basePath'' = Some b" "b \<noteq> []"
  shows "fst (init e s) \<noteq> Inl configuration_incomplete
     \<and> (\<exists>c. config (snd (init e s)) = Some c \<and> serverUrl c = u \<and> basePath c = b
            \<and> authUrl c = getConfig e ''authUrl'' \<and> username c = getConfig e ''username''
            \<and> password c = getConfig e ''password'')"
proof (cases "truthy_opt (getConfig e ''authToken'') \<or> \<not> truthy_opt (getConfig e ''username'')
         \<or> \<not> truthy_opt (getConfig e ''password'')")
  case True
  show ?thesis
    by (simp add: init_without_authentication [OF assms True])
next
  case False
  then obtain user pass where creds: "\<not> truthy_opt (getConfig e ''authToken'')"
      "getConfig e ''username'' = Some user" "user \<noteq> []"
      "getConfig e ''password'' = Some pass" "pass \<noteq> []"
    by (auto simp: truthy_opt_iff)
  show ?thesis
    by (simp add: init_with_authentication [OF assms creds] creds configuration_incomplete_def
          split: sum.splits)
qed

text \<open>
  Claim C9.  \<open>init\<close> throws the configuration error, and leaves the client as it was, when
  \<open>serverUrl\<close> or \<open>basePath\<close> is absent from the settings (or empty, which the test
  \<open>!serverConfig.serverUrl\<close> does not tell from absent), whatever the other settings are.
  When both are there it does not throw that error, and the client ends up with a
  configuration that holds them and the optional settings.
\<close>

theorem init_requires_serverUrl_and_basePath:
  "(getConfig e ''serverUrl'' = None \<or> getConfig e ''serverUrl'' = Some []
      \<or> getConfig e ''basePath'' = None \<or> getConfig e ''basePath'' = Some [] \<longrightarrow>
      init e s = (Inl configuration_incomplete, s))
   \<and> (getConfig e ''serverUrl'' = Some u \<and> u \<noteq> []
      \<and> getConfig e ''basePath'' = Some b \<and> b \<noteq> [] \<longrightarrow>
        fst (init e s) \<noteq> Inl configuration_incomplete
      \<and> (\<exists>c. config (snd (init e s)) = Some c \<and> serverUrl c = u \<and> basePath c = b
             \<and> authUrl c = getConfig e ''authUrl'' \<and> username c = getConfig e ''username''
             \<and> password c = getConfig e ''password''))
   \<and> configuration_incomplete
       = Error ''HTTP client configuration incomplete. Please set serverUrl and basePath in config.''"
  using init_incomplete [of e s] init_configures [of e u b s]
  by (simp add: configuration_incomplete_def)

theorem init_requires_serverUrl_and_basePath_witness:
  "init incomplete_env initial_state = (Inl configuration_incomplete, initial_state)
   \<and> config (snd (init example_env initial_state))
       = Some \<lparr>serverUrl = ''http://srv'', authUrl = None, authToken = JStr ''tok'',
               basePath = ''/base'', username = None, password = None\<rparr>"
  using
    init_requires_serverUrl_and_basePath [where e = incomplete_env and s = initial_state]
    init_requires_serverUrl_and_basePath [where e = example_env and s = initial_state
      and u = "''http://srv''" and b = "''/base''"]
  by (simp add: incomplete_env_def example_env_def init_def initial_state_def or_default_def)

section \<open>Reading through the module\<close>

lemma is_token_request_simps [simp]:
  "is_token_request (token_request e user pass)"
  "\<not> is_token_request (api_request c endpoint d)"
  by (simp_all add: is_token_request_def token_request_def api_request_def)

lemma readFile_sends_one:
  assumes "config s = Some c"
  shows "\<exists>d. snd (readFile e r s) = s\<lparr>sent := sent s @ [api_request c ''read_file'' d]\<rparr>"
proof -
  obtain q where "validatePath (Some c) (DirectoryListRequest.path r) = Inr q"
    using validatePath_total by blast
  from readFile_state [OF assms this] show ?thesis
    by blast
qed

lemma readFileFromDisk_state:
  "snd (readFileFromDisk e p off len s) =
     (case init e s of
        (Inl err, s1) \<Rightarrow> s1
      | (Inr u, s1) \<Rightarrow>
          snd (readFile e \<lparr>DirectoryListRequest.path = p, offset = Some off,
                            length_field = Some len, isUrl = None\<rparr> s1))"
  by (simp add: readFileFromDisk_def split: prod.splits sum.splits)

lemma readFileFromDisk_with_authentication:
  assumes "getConfig e ''serverUrl'' = Some u" "u \<noteq> []"
    and "getConfig e ''basePath'' = Some b" "b \<noteq> []"
    and "\<not> truthy_opt (getConfig e ''authToken'')"
    and "getConfig e ''username'' = Some user" "user \<noteq> []"
    and "getConfig e ''password'' = Some pass" "pass \<noteq> []"
  shows "\<exists>rest. sent (snd (readFileFromDisk e p off len s))
                  = sent s @ token_request e user pass # rest
           \<and> length rest \<le> 1 \<and> (\<forall>rq \<in> set rest. \<not> is_token_request rq)
           \<and> (rest \<noteq> [] \<longleftrightarrow> fst (init e s) = Inr ())"
proof (cases "token_of (fetch e (sent s) (token_request e user pass))")
  case (Inl err)
  then show ?thesis
    by (simp add: readFileFromDisk_state init_with_authentication [OF assms])
next
  case (Inr token)
  let ?c = "\<lparr>serverUrl = u, authUrl = getConfig e ''authUrl'', authToken = token,
             basePath = b, username = Some user, password = Some pass\<rparr>"
  let ?s1 = "\<lparr>config = Some ?c, sent = sent s @ [token_request e user pass]\<rparr>"
  have init: "init e s = (Inr (), ?s1)"
    by (simp add: init_with_authentication [OF assms] Inr)
  obtain d where "snd (readFile e \<lparr>DirectoryListRequest.path = p, offset = Some off,
                            length_field = Some len, isUrl = None\<rparr> ?s1)
        = ?s1\<lparr>sent := sent ?s1 @ [api_request ?c ''read_file'' d]\<rparr>"
    using readFile_sends_one [of ?s1 ?c] by auto
  then show ?thesis
    by (simp add: readFileFromDisk_state init)
qed

lemma readMultipleFiles_loop_step:
  "\<exists>entry. readMultipleFiles_loop e (p # ps) acc s
      = readMultipleFiles_loop e ps (acc @ [entry]) (snd (fs_readFile e p False 0 1000 s))"
  by (cases "fs_readFile e p False 0 1000 s") (auto split: sum.splits)

lemma readMultipleFiles_loop_authentications:
  assumes "getConfig e ''serverUrl'' = Some u" "u \<noteq> []"
    and "getConfig e ''basePath'' = Some b" "b \<noteq> []"
    and "\<not> truthy_opt (getConfig e ''authToken'')"
    and "getConfig e ''username'' = Some user" "user \<noteq> []"
    and "getConfig e ''password'' = Some pass" "pass \<noteq> []"
  shows "\<exists>rqs. sent (snd (readMultipleFiles_loop e paths acc s)) = sent s @ rqs
           \<and> length (filter is_token_request rqs) = length paths"
proof (induction paths arbitrary: acc s)
  case Nil
  show ?case by simp
next
  case (Cons p ps)
  let ?s' = "snd (fs_readFile e p False 0 1000 s)"
  obtain rest where rest: "sent ?s' = sent s @ token_request e user pass # rest"
      "\<forall>rq \<in> set rest. \<not> is_token_request rq"
    using readFileFromDisk_with_authentication [OF assms, of p 0 1000 s]
    by (auto simp: fs_readFile_def)
  obtain entry where step: "readMultipleFiles_loop e (p # ps) acc s
      = readMultipleFiles_loop e ps (acc @ [entry]) ?s'"
    using readMultipleFiles_loop_step by blast
  obtain rqs where rqs: "sent (snd (readMultipleFiles_loop e ps (acc @ [entry]) ?s')) = sent ?s' @ rqs"
      "length (filter is_token_request rqs) = length ps"
    using Cons.IH by blast
  have "filter is_token_request rest = []"
    using rest(2) by (simp add: filter_empty_conv)
  then have "length (filter is_token_request (token_request e user pass # rest @ rqs)) = length (p # ps)"
    using rqs(2) by simp
  moreover have "sent (snd (readMultipleFiles_loop e (p # ps) acc s))
      = sent s @ (token_request e user pass # rest @ rqs)"
    using step rqs(1) rest(1) by simp
  ultimately show ?case
    by blast
qed

lemma transmitted_eq: "sent s' = sent s @ rqs \<Longrightarrow> transmitted s s' = rqs"
  by (simp add: transmitted_def)

text \<open>
  Claim C4, as amended.  When the settings are complete, hold no \<open>authToken\<close> and hold a
  \<open>username\<close> and a \<open>password\<close>, every call of \<open>init\<close> issues exactly one request, the
  token request.  A call of \<open>readFileFromDisk\<close> issues the token request first and after it
  at most one request, which is not a token request and is there exactly when \<open>init\<close>
  succeeded.  \<open>readMultipleFiles\<close>, which calls it once for each path, issues as many token
  requests as there are paths.
\<close>

theorem init_authenticates_on_every_call:
  "getConfig e ''serverUrl'' = Some u \<and> u \<noteq> []
   \<and> getConfig e ''basePath'' = Some b \<and> b \<noteq> []
   \<and> \<not> truthy_opt (getConfig e ''authToken'')
   \<and> getConfig e ''username'' = Some user \<and> user \<noteq> []
   \<and> getConfig e ''password'' = Some pass \<and> pass \<noteq> [] \<longrightarrow>
     transmitted s (snd (init e s)) = [token_request e user pass]
   \<and> (\<exists>rest. transmitted s (snd (readFileFromDisk e p off len s))
                 = token_request e user pass # rest
          \<and> length rest \<le> 1 \<and> (\<forall>rq \<in> set rest. \<not> is_token_request rq)
          \<and> (rest \<noteq> [] \<longleftrightarrow> fst (init e s) = Inr ()))
   \<and> length (filter is_token_request (transmitted s (snd (readMultipleFiles e paths s))))
       = length paths"
proof (intro impI, elim conjE)
  assume cfg: "getConfig e ''serverUrl'' = Some u" "u \<noteq> []"
    "getConfig e ''basePath'' = Some b" "b \<noteq> []"
    "\<not> truthy_opt (getConfig e ''authToken'')"
    "getConfig e ''username'' = Some user" "user \<noteq> []"
    "getConfig e ''password'' = Some pass" "pass \<noteq> []"
  have one: "transmitted s (snd (init e s)) = [token_request e user pass]"
    by (rule transmitted_eq) (simp add: init_with_authentication [OF cfg] split: sum.splits)
  obtain rest where rest: "sent (snd (readFileFromDisk e p off len s))
                  = sent s @ token_request e user pass # rest"
      "length rest \<le> 1" "\<forall>rq \<in> set rest. \<not> is_token_request rq"
      "rest \<noteq> [] \<longleftrightarrow> fst (init e s) = Inr ()"
    using readFileFromDisk_with_authentication [OF cfg, of p off len s] by blast
  have call: "\<exists>rest. transmitted s (snd (readFileFromDisk e p off len s))
                 = token_request e user pass # rest
          \<and> length rest \<le> 1 \<and> (\<forall>rq \<in> set rest. \<not> is_token_request rq)
          \<and> (rest \<noteq> [] \<longleftrightarrow> fst (init e s) = Inr ())"
    using transmitted_eq [OF rest(1)] rest(2,3,4) by blast
  obtain rqs where rqs: "sent (snd (readMultipleFiles_loop e paths [] s)) = sent s @ rqs"
      "length (filter is_token_request rqs) = length paths"
    using readMultipleFiles_loop_authentications [OF cfg, of paths "[]" s] by blast
  have "snd (readMultipleFiles e paths s) = snd (readMultipleFiles_loop e paths [] s)"
    by (simp add: readMultipleFiles_def split: prod.splits)
  then have batch: "length (filter is_token_request
      (transmitted s (snd (readMultipleFiles e paths s)))) = length paths"
    using transmitted_eq [OF rqs(1)] rqs(2) by simp
  from one call batch
  show "transmitted s (snd (init e s)) = [token_request e user pass]
   \<and> (\<exists>rest. transmitted s (snd (readFileFromDisk e p off len s))
                 = token_request e user pass # rest
          \<and> length rest \<le> 1 \<and> (\<forall>rq \<in> set rest. \<not> is_token_request rq)
          \<and> (rest \<noteq> [] \<longleftrightarrow> fst (init e s) = Inr ()))
   \<and> length (filter is_token_request (transmitted s (snd (readMultipleFiles e paths s))))
       = length paths"
    by (intro conjI)
qed

theorem init_authenticates_on_every_call_witness:
  "transmitted initial_state (snd (init password_env initial_state))
     = [token_request password_env ''alice'' ''secret'']
   \<and> length (filter is_token_request
        (transmitted initial_state
           (snd (readMultipleFiles password_env [''/a'', ''/b'', ''/c''] initial_state)))) = 3"
  using init_authenticates_on_every_call [where e = password_env and s = initial_state
      and u = "''http://srv''" and b = "''/base''" and user = "''alice''" and pass = "''secret''"
      and paths = "[''/a'', ''/b'', ''/c'']"]
  by (simp add: password_env_def)

lemmas client_defs =
  readFileFromDisk_def init_def authenticate_def token_of_def token_request_def readFile_def
  makeRequest_def validatePath_def or_default_def js_or_def Let_def

text \<open>
  Claim C4 as stated fails: \<open>init\<close> has no check that makes a second call do nothing.  Two
  calls of \<open>readFileFromDisk\<close> in a row, from a fresh program, issue four requests, and the
  first and the third are token requests.
\<close>

theorem second_call_authenticates_again_counterexample:
  "map is_token_request
     (sent (snd (readFileFromDisk password_env ''/b'' 0 1000
                   (snd (readFileFromDisk password_env ''/a'' 0 1000 initial_state)))))
     = [True, False, True, False]"
  by (simp add: client_defs password_env_def initial_state_def example_fetch_def
        is_token_request_def body_field_def api_request_def ok_response_def ok_def
        json_of_FileReadRequest_def opt_field_def)

lemma readMultipleFiles_loop_entry:
  "\<exists>entry. readMultipleFiles_loop e (p # ps) acc s
      = readMultipleFiles_loop e ps (acc @ [entry]) (snd (fs_readFile e p False 0 1000 s))
    \<and> path entry = p
    \<and> (content entry \<noteq> None \<and> error entry = None \<or> content entry = None \<and> error entry \<noteq> None)
    \<and> (\<forall>fr. fst (fs_readFile e p False 0 1000 s) = Inr fr \<longrightarrow>
          entry = \<lparr>path = p, content = Some (FileResult.content fr),
                   mimeType = Some (FileResult.mimeType fr),
                   isImage = Some (FileResult.isImage fr), error = None\<rparr>)
    \<and> (\<forall>err. fst (fs_readFile e p False 0 1000 s) = Inl err \<longrightarrow>
          entry = \<lparr>path = p, content = None, mimeType = None, isImage = None,
                   error = Some (message_of err)\<rparr>)"
proof (cases "fs_readFile e p False 0 1000 s")
  case (Pair res s')
  show ?thesis
  proof (cases res)
    case (Inl err)
    with Pair show ?thesis by simp
  next
    case (Inr fr)
    with Pair show ?thesis by simp
  qed
qed

lemma readMultipleFiles_loop_acc:
  "readMultipleFiles_loop e ps acc s
     = (acc @ fst (readMultipleFiles_loop e ps [] s), snd (readMultipleFiles_loop e ps [] s))"
proof (induction ps arbitrary: acc s)
  case Nil
  show ?case by simp
next
  case (Cons p ps)
  let ?s' = "snd (fs_readFile e p False 0 1000 s)"
  obtain entry where entry: "readMultipleFiles_loop e (p # ps) acc s
      = readMultipleFiles_loop e ps (acc @ [entry]) ?s'"
      "\<forall>fr. fst (fs_readFile e p False 0 1000 s) = Inr fr \<longrightarrow>
          entry = \<lparr>path = p, content = Some (FileResult.content fr),
                   mimeType = Some (FileResult.mimeType fr),
                   isImage = Some (FileResult.isImage fr), error = None\<rparr>"
      "\<forall>err. fst (fs_readFile e p False 0 1000 s) = Inl err \<longrightarrow>
          entry = \<lparr>path = p, content = None, mimeType = None, isImage = None,
                   error = Some (message_of err)\<rparr>"
    using readMultipleFiles_loop_entry [of e p ps acc s] by blast
  obtain entry' where entry': "readMultipleFiles_loop e (p # ps) [] s
      = readMultipleFiles_loop e ps ([] @ [entry']) ?s'"
      "\<forall>fr. fst (fs_readFile e p False 0 1000 s) = Inr fr \<longrightarrow>
          entry' = \<lparr>path = p, content = Some (FileResult.content fr),
                   mimeType = Some (FileResult.mimeType fr),
                   isImage = Some (FileResult.isImage fr), error = None\<rparr>"
      "\<forall>err. fst (fs_readFile e p False 0 1000 s) = Inl err \<longrightarrow>
          entry' = \<lparr>path = p, content = None, mimeType = None, isImage = None,
                   error = Some (message_of err)\<rparr>"
    using readMultipleFiles_loop_entry [of e p ps "[]" s] by blast
  have same: "entry' = entry"
    using entry(2,3) entry'(2,3) by (cases "fst (fs_readFile e p False 0 1000 s)") auto
  show ?case
    using Cons.IH [of "acc @ [entry]" ?s'] Cons.IH [of "[entry]" ?s'] entry(1) entry'(1) same
    by simp
qed

lemma readMultipleFiles_Nil: "readMultipleFiles e [] s = (Inr [], s)"
  by (simp add: readMultipleFiles_def)

lemma readMultipleFiles_Cons:
  "\<exists>entry rs. readMultipleFiles e (p # ps) s
        = (Inr (entry # rs), snd (readMultipleFiles e ps (snd (fs_readFile e p False 0 1000 s))))
    \<and> fst (readMultipleFiles e ps (snd (fs_readFile e p False 0 1000 s))) = Inr rs
    \<and> path entry = p
    \<and> (content entry \<noteq> None \<and> error entry = None \<or> content entry = None \<and> error entry \<noteq> None)
    \<and> (\<forall>fr. fst (fs_readFile e p False 0 1000 s) = Inr fr \<longrightarrow>
          entry = \<lparr>path = p, content = Some (FileResult.content fr),
                   mimeType = Some (FileResult.mimeType fr),
                   isImage = Some (FileResult.isImage fr), error = None\<rparr>)
    \<and> (\<forall>err. fst (fs_readFile e p False 0 1000 s) = Inl err \<longrightarrow>
          entry = \<lparr>path = p, content = None, mimeType = None, isImage = None,
                   error = Some (message_of err)\<rparr>)"
proof -
  let ?s' = "snd (fs_readFile e p False 0 1000 s)"
  obtain entry where entry: "readMultipleFiles_loop e (p # ps) [] s
      = readMultipleFiles_loop e ps ([] @ [entry]) ?s'"
    and props: "path entry = p"
      "content entry \<noteq> None \<and> error entry = None \<or> content entry = None \<and> error entry \<noteq> None"
      "\<forall>fr. fst (fs_readFile e p False 0 1000 s) = Inr fr \<longrightarrow>
          entry = \<lparr>path = p, content = Some (FileResult.content fr),
                   mimeType = Some (FileResult.mimeType fr),
                   isImage = Some (FileResult.isImage fr), error = None\<rparr>"
      "\<forall>err. fst (fs_readFile e p False 0 1000 s) = Inl err \<longrightarrow>
          entry = \<lparr>path = p, content = None, mimeType = None, isImage = None,
                   error = Some (message_of err)\<rparr>"
    using readMultipleFiles_loop_entry [of e p ps "[]" s] by blast
  let ?rs = "fst (readMultipleFiles_loop e ps [] ?s')"
  have "readMultipleFiles e (p # ps) s
        = (Inr (entry # ?rs), snd (readMultipleFiles e ps ?s'))"
    using entry readMultipleFiles_loop_acc [of e ps "[entry]" ?s']
    by (simp add: readMultipleFiles_def split: prod.splits)
  moreover have "fst (readMultipleFiles e ps ?s') = Inr ?rs"
    by (simp add: readMultipleFiles_def split: prod.splits)
  ultimately show ?thesis
    using props by blast
qed

lemma readMultipleFiles_results:
  "\<exists>results. fst (readMultipleFiles e paths s) = Inr results
     \<and> length results = length paths
     \<and> map path results = paths
     \<and> (\<forall>r \<in> set results.
           content r \<noteq> None \<and> error r = None \<or> content r = None \<and> error r \<noteq> None)"
proof (induction paths arbitrary: s)
  case Nil
  show ?case by (simp add: readMultipleFiles_Nil)
next
  case (Cons p ps)
  obtain entry rs where step: "readMultipleFiles e (p # ps) s
        = (Inr (entry # rs), snd (readMultipleFiles e ps (snd (fs_readFile e p False 0 1000 s))))"
      "fst (readMultipleFiles e ps (snd (fs_readFile e p False 0 1000 s))) = Inr rs"
      "path entry = p"
      "content entry \<noteq> None \<and> error entry = None \<or> content entry = None \<and> error entry \<noteq> None"
    using readMultipleFiles_Cons [of e p ps s] by blast
  from Cons.IH [of "snd (fs_readFile e p False 0 1000 s)"] step(2)
  have "length rs = length ps" "map path rs = ps"
    "\<forall>r \<in> set rs. content r \<noteq> None \<and> error r = None \<or> content r = None \<and> error r \<noteq> None"
    by auto
  with step show ?case by simp
qed

text \<open>
  Claim C8.  \<open>readMultipleFiles\<close> does not throw: it returns one result for each path, with
  the paths in their order, and each result has either a \<open>content\<close> and no \<open>error\<close>, or an
  \<open>error\<close> and no \<open>content\<close>.  The paths are read one after the other: the first result is
  that of reading the first path in the state the call started in, with the content on
  success and the message of what was thrown on failure, and the other results are those of
  \<open>readMultipleFiles\<close> on the other paths in the state the first read has left.
\<close>

theorem readMultipleFiles_collects_every_path:
  "\<exists>results. fst (readMultipleFiles e paths s) = Inr results
     \<and> length results = length paths
     \<and> map path results = paths
     \<and> (\<forall>r \<in> set results.
           content r \<noteq> None \<and> error r = None \<or> content r = None \<and> error r \<noteq> None)
     \<and> (\<forall>p ps. paths = p # ps \<longrightarrow>
           (\<exists>entry rs. results = entry # rs
              \<and> readMultipleFiles e ps (snd (fs_readFile e p False 0 1000 s))
                  = (Inr rs, snd (readMultipleFiles e paths s))
              \<and> (\<forall>fr. fst (fs_readFile e p False 0 1000 s) = Inr fr \<longrightarrow>
                    entry = \<lparr>path = p, content = Some (FileResult.content fr),
                             mimeType = Some (FileResult.mimeType fr),
                             isImage = Some (FileResult.isImage fr), error = None\<rparr>)
              \<and> (\<forall>err. fst (fs_readFile e p False 0 1000 s) = Inl err \<longrightarrow>
                    entry = \<lparr>path = p, content = None, mimeType = None, isImage = None,
                             error = Some (message_of err)\<rparr>)))"
proof -
  obtain results where results: "fst (readMultipleFiles e paths s) = Inr results"
      "length results = length paths" "map path results = paths"
      "\<forall>r \<in> set results.
           content r \<noteq> None \<and> error r = None \<or> content r = None \<and> error r \<noteq> None"
    using readMultipleFiles_results [of e paths s] by blast
  have in_order: "\<exists>entry rs. results = entry # rs
              \<and> readMultipleFiles e ps (snd (fs_readFile e p False 0 1000 s))
                  = (Inr rs, snd (readMultipleFiles e paths s))
              \<and> (\<forall>fr. fst (fs_readFile e p False 0 1000 s) = Inr fr \<longrightarrow>
                    entry = \<lparr>path = p, content = Some (FileResult.content fr),
                             mimeType = Some (FileResult.mimeType fr),
                             isImage = Some (FileResult.isImage fr), error = None\<rparr>)
              \<and> (\<forall>err. fst (fs_readFile e p False 0 1000 s) = Inl err \<longrightarrow>
                    entry = \<lparr>path = p, content = None, mimeType = None, isImage = None,
                             error = Some (message_of err)\<rparr>)"
    if paths: "paths = p # ps" for p ps
  proof -
    obtain entry rs where step: "readMultipleFiles e (p # ps) s
        = (Inr (entry # rs), snd (readMultipleFiles e ps (snd (fs_readFile e p False 0 1000 s))))"
      "fst (readMultipleFiles e ps (snd (fs_readFile e p False 0 1000 s))) = Inr rs"
      "\<forall>fr. fst (fs_readFile e p False 0 1000 s) = Inr fr \<longrightarrow>
          entry = \<lparr>path = p, content = Some (FileResult.content fr),
                   mimeType = Some (FileResult.mimeType fr),
                   isImage = Some (FileResult.isImage fr), error = None\<rparr>"
      "\<forall>err. fst (fs_readFile e p False 0 1000 s) = Inl err \<longrightarrow>
          entry = \<lparr>path = p, content = None, mimeType = None, isImage = None,
                   error = Some (message_of err)\<rparr>"
      using readMultipleFiles_Cons [of e p ps s] by blast
    have "results = entry # rs"
      using results(1) step(1) paths by simp
    moreover have "readMultipleFiles e ps (snd (fs_readFile e p False 0 1000 s))
                  = (Inr rs, snd (readMultipleFiles e paths s))"
      using step(1,2) paths by (simp add: prod_eq_iff)
    ultimately show ?thesis
      using step(3,4) by blast
  qed
  from results in_order show ?thesis
    by blast
qed

lemma example_batch:
  "fst (readMultipleFiles example_env [''/a'', ''/missing''] initial_state)
     = Inr [\<lparr>path = ''/a'', content = Some (JStr ''hello''), mimeType = Some ''text/plain'',
             isImage = Some False, error = None\<rparr>,
            \<lparr>path = ''/missing'', content = None, mimeType = None, isImage = None,
             error = Some ''HTTP 404: Not Found''\<rparr>]"
  by code_simp

theorem readMultipleFiles_collects_every_path_witness:
  "fst (readMultipleFiles example_env [''/a'', ''/missing''] initial_state)
     = Inr [\<lparr>path = ''/a'', content = Some (JStr ''hello''), mimeType = Some ''text/plain'',
             isImage = Some False, error = None\<rparr>,
            \<lparr>path = ''/missing'', content = None, mimeType = None, isImage = None,
             error = Some ''HTTP 404: Not Found''\<rparr>]"
  using readMultipleFiles_collects_every_path
          [of example_env "[''/a'', ''/missing'']" initial_state]
  by (simp add: example_batch)

end
